theory Spec2Isabelle
  imports Main "HOL-Library.Word"
begin

section \<open>The IBC 02-client keeper: data model\<close>

text \<open>
  The keeper of \<^verbatim>\<open>x/ibc/02-client\<close> offers three operations: \<^verbatim>\<open>CreateClient\<close>,
  \<^verbatim>\<open>UpdateClient\<close> and \<^verbatim>\<open>CheckMisbehaviourAndUpdateState\<close>. They are embedded
  here as functions that take the context (the store) and return an outcome together
  with the context they leave behind. Every \<^verbatim>\<open>return\<close> and the \<^verbatim>\<open>panic\<close> of the
  source is one branch of the model, and each branch returns the context as it is at
  that point of the Go code.
\<close>

type_synonym uint64 = "64 word"

text \<open>
  \<^verbatim>\<open>exported.ClientType\<close>: the consensus type tag. The keeper names one tag,
  \<^verbatim>\<open>exported.Tendermint\<close>; every other value of the type is an \<open>OtherClientType\<close>.
\<close>

datatype ClientType = Tendermint | OtherClientType nat

text \<open>
  The errors the keeper returns. The sentinel errors are those of \<^verbatim>\<open>types\<close> and
  \<^verbatim>\<open>sdkerrors\<close> that the source names; \<open>ErrVerifier\<close> stands for an error produced by
  \<^verbatim>\<open>initialize\<close> or by the Tendermint package. \<open>Wrapf e msg\<close> is
  \<^verbatim>\<open>sdkerrors.Wrapf(e, msg)\<close> (and \<^verbatim>\<open>sdkerrors.Wrap\<close>): the error \<open>e\<close> with a
  context message.
\<close>

datatype error =
    ErrClientExists
  | ErrClientTypeNotFound
  | ErrInvalidConsensus
  | ErrClientNotFound
  | ErrClientFrozen
  | ErrInvalidClientType
  | ErrConsensusStateNotFound
  | ErrUnknownRequest
  | ErrVerifier string
  | Wrapf error string

text \<open>The sentinel error at the root of a chain of wraps.\<close>

fun Cause :: "error \<Rightarrow> error" where
  "Cause (Wrapf e msg) = Cause e"
| "Cause e = e"

text \<open>
  The outcome of an operation: a normal return with a value, a returned error, or a
  panic, which unwinds the call and is not an error value the caller receives.
\<close>

datatype 'a result = Ok 'a | Err error | Panic string

text \<open>
  Modelled from the spec: \<^verbatim>\<open>exported.ClientState\<close> is an interface declared in
  \<^verbatim>\<open>02-client/exported\<close>, which is not among the sources. The keeper calls
  \<^verbatim>\<open>IsFrozen()\<close> and \<^verbatim>\<open>GetLatestHeight()\<close> on it, and \<^verbatim>\<open>SetClientState\<close> receives
  the client state alone, so the identifier it is stored under is the one the state
  carries (\<open>GetID\<close>). The spec describes the record as the latest verified height, a
  frozen flag with the frozen height, and parameters that are opaque to the keeper.
\<close>

record ClientState =
  GetID :: string
  GetLatestHeight :: uint64
  IsFrozen :: bool
  FrozenHeight :: uint64
  Params :: string

text \<open>
  Modelled from the spec: \<^verbatim>\<open>exported.ConsensusState\<close> (an interface, not among the
  sources) is a snapshot of the remote chain's state root and validator commitment at
  one height.
  The keeper never looks inside it.
\<close>

record ConsensusState =
  Height :: uint64
  Root :: string
  ValidatorSetHash :: string

text \<open>
  \<^verbatim>\<open>exported.Header\<close>: the keeper calls \<^verbatim>\<open>ClientType()\<close> and \<^verbatim>\<open>GetHeight()\<close>; the
  rest of the header is read by the verifier only.
\<close>

record Header =
  Header_ClientType :: ClientType
  Header_GetHeight :: uint64
  Header_Data :: string

text \<open>
  \<^verbatim>\<open>exported.Misbehaviour\<close>: the keeper calls \<^verbatim>\<open>GetClientID()\<close>, \<^verbatim>\<open>GetHeight()\<close>
  and \<^verbatim>\<open>ClientType()\<close>, and switches on the dynamic type of the value, which is
  either \<^verbatim>\<open>tendermint.Evidence\<close> or some other type (kept with its Go type name, which
  the \<^verbatim>\<open>%T\<close> of the error message prints). \<^verbatim>\<open>GetHeight()\<close> returns a signed integer
  that the keeper converts with \<^verbatim>\<open>uint64(...)\<close>. The evidence carries the two
  headers it accuses, which only the verifier reads.
\<close>

datatype EvidenceType = TendermintEvidence | OtherEvidence string

record Misbehaviour =
  DynamicType :: EvidenceType
  GetClientID :: string
  Misbehaviour_GetHeight :: int
  Misbehaviour_ClientType :: ClientType
  Header1 :: Header
  Header2 :: Header

text \<open>Go's conversion of a signed integer to \<^verbatim>\<open>uint64\<close>: the value modulo \<open>2 ^ 64\<close>.\<close>

definition to_uint64 :: "int \<Rightarrow> uint64" where
  "to_uint64 h = word_of_int h"

text \<open>The events the three operations emit through the context's event manager.\<close>

datatype Event =
    EventTypeCreateClient string
  | EventTypeUpdateClient string
  | EventTypeSubmitMisbehaviour string ClientType
  | EventTypeMessage

text \<open>
  \<^verbatim>\<open>sdk.Context\<close>, as far as the keeper uses it: the chain identifier, the key-value
  store of the module (one map for each of the three kinds of record) and the emitted
  events. The logger is an external observer that writes nothing to the store; its
  calls are left out.
\<close>

record Context =
  ChainID :: string
  clientStates :: "string \<rightharpoonup> ClientState"
  clientTypes :: "string \<rightharpoonup> ClientType"
  consensusStates :: "string \<times> uint64 \<rightharpoonup> ConsensusState"
  events :: "Event list"

text \<open>
  Modelled from the spec: the store accessors of the keeper live in \<^verbatim>\<open>keeper.go\<close>,
  which is not among the sources. The spec gives them as get and set of the ClientState
  by identifier, of the consensus type tag by identifier, and of the ConsensusState by
  identifier and height, on a store that is read back as it was written.
  \<^verbatim>\<open>SetClientState\<close> is called with the context and the ClientState only, so it
  stores the state under the identifier the state carries. \<^verbatim>\<open>EmitEvents\<close> appends
  to the events of the context.
\<close>

definition GetClientState :: "Context \<Rightarrow> string \<Rightarrow> ClientState option" where
  "GetClientState ctx clientID = clientStates ctx clientID"

definition SetClientState :: "Context \<Rightarrow> ClientState \<Rightarrow> Context" where
  "SetClientState ctx clientState =
     ctx\<lparr>clientStates := (clientStates ctx)(GetID clientState \<mapsto> clientState)\<rparr>"

definition GetClientType :: "Context \<Rightarrow> string \<Rightarrow> ClientType option" where
  "GetClientType ctx clientID = clientTypes ctx clientID"

definition SetClientType :: "Context \<Rightarrow> string \<Rightarrow> ClientType \<Rightarrow> Context" where
  "SetClientType ctx clientID clientType =
     ctx\<lparr>clientTypes := (clientTypes ctx)(clientID \<mapsto> clientType)\<rparr>"

definition GetClientConsensusState ::
  "Context \<Rightarrow> string \<Rightarrow> uint64 \<Rightarrow> ConsensusState option" where
  "GetClientConsensusState ctx clientID height = consensusStates ctx (clientID, height)"

definition SetClientConsensusState ::
  "Context \<Rightarrow> string \<Rightarrow> uint64 \<Rightarrow> ConsensusState \<Rightarrow> Context" where
  "SetClientConsensusState ctx clientID height consensusState =
     ctx\<lparr>consensusStates := (consensusStates ctx)((clientID, height) \<mapsto> consensusState)\<rparr>"

definition EmitEvents :: "Context \<Rightarrow> Event list \<Rightarrow> Context" where
  "EmitEvents ctx evs = ctx\<lparr>events := events ctx @ evs\<rparr>"

text \<open>
  The three functions the keeper calls whose bodies are not among the sources are
  parameters of the model: \<^verbatim>\<open>k.initialize\<close>, which receives the context and may
  therefore write to the store, and the two functions of the Tendermint package, which
  receive values only.
\<close>

record Keeper =
  initialize ::
    "Context \<Rightarrow> string \<Rightarrow> ClientType \<Rightarrow> ConsensusState \<Rightarrow> (error + ClientState) \<times> Context"
  tendermint_CheckValidityAndUpdateState ::
    "ClientState \<Rightarrow> Header \<Rightarrow> string \<Rightarrow> error + ClientState \<times> ConsensusState"
  tendermint_CheckMisbehaviourAndUpdateState ::
    "ClientState \<Rightarrow> ConsensusState \<Rightarrow> Misbehaviour \<Rightarrow> uint64 \<Rightarrow> error + ClientState"

section \<open>The operations\<close>

text \<open>
  \<^verbatim>\<open>CreateClient\<close>: an existing ClientState is answered with \<^verbatim>\<open>ErrClientExists\<close>, an
  existing type tag with a panic; then the initialisation runs, and on its success the
  ClientState and the type tag are stored and two events are emitted.
\<close>

definition CreateClient ::
  "Keeper \<Rightarrow> Context \<Rightarrow> string \<Rightarrow> ClientType \<Rightarrow> ConsensusState
     \<Rightarrow> ClientState result \<times> Context" where
  "CreateClient k ctx clientID clientType consensusState =
     (case GetClientState ctx clientID of
        Some _ \<Rightarrow>
          (Err (Wrapf ErrClientExists (''cannot create client with ID '' @ clientID)), ctx)
      | None \<Rightarrow>
          (case GetClientType ctx clientID of
             Some _ \<Rightarrow>
               (Panic (''client type is already defined for client '' @ clientID), ctx)
           | None \<Rightarrow>
               (case initialize k ctx clientID clientType consensusState of
                  (Inl err, ctx1) \<Rightarrow>
                    (Err (Wrapf err (''cannot create client with ID '' @ clientID)), ctx1)
                | (Inr clientState, ctx1) \<Rightarrow>
                    (let ctx2 = SetClientState ctx1 clientState;
                         ctx3 = SetClientType ctx2 clientID clientType;
                         ctx4 = EmitEvents ctx3
                                  [EventTypeCreateClient clientID, EventTypeMessage]
                     in (Ok clientState, ctx4)))))"

text \<open>
  \<^verbatim>\<open>UpdateClient\<close>: the checks come in the order of the source, the type tag, the
  header's type against it, the ClientState, the frozen flag; then the switch on the
  type tag, whose only case is Tendermint and whose default returns
  \<^verbatim>\<open>ErrInvalidClientType\<close>. On success the new ClientState and the ConsensusState at
  the header's height are stored and two events are emitted.
\<close>

definition UpdateClient ::
  "Keeper \<Rightarrow> Context \<Rightarrow> string \<Rightarrow> Header \<Rightarrow> unit result \<times> Context" where
  "UpdateClient k ctx clientID header =
     (case GetClientType ctx clientID of
        None \<Rightarrow>
          (Err (Wrapf ErrClientTypeNotFound (''cannot update client with ID '' @ clientID)),
           ctx)
      | Some clientType \<Rightarrow>
          if Header_ClientType header \<noteq> clientType then
            (Err (Wrapf ErrInvalidConsensus (''cannot update client with ID '' @ clientID)),
             ctx)
          else
            (case GetClientState ctx clientID of
               None \<Rightarrow>
                 (Err (Wrapf ErrClientNotFound (''cannot update client with ID '' @ clientID)),
                  ctx)
             | Some clientState \<Rightarrow>
                 if IsFrozen clientState then
                   (Err (Wrapf ErrClientFrozen (''cannot update client with ID '' @ clientID)),
                    ctx)
                 else
                   (case clientType of
                      Tendermint \<Rightarrow>
                        (case tendermint_CheckValidityAndUpdateState k clientState header
                                (ChainID ctx) of
                           Inl err \<Rightarrow>
                             (Err (Wrapf err (''cannot update client with ID '' @ clientID)),
                              ctx)
                         | Inr (clientState', consensusState) \<Rightarrow>
                             (let ctx1 = SetClientState ctx clientState';
                                  ctx2 = SetClientConsensusState ctx1 clientID
                                           (Header_GetHeight header) consensusState;
                                  ctx3 = EmitEvents ctx2
                                           [EventTypeUpdateClient clientID, EventTypeMessage]
                              in (Ok (), ctx3)))
                    | OtherClientType _ \<Rightarrow>
                        (Err (Wrapf ErrInvalidClientType
                                (''cannot update client with ID '' @ clientID)),
                         ctx))))"

text \<open>
  \<^verbatim>\<open>CheckMisbehaviourAndUpdateState\<close>: the ClientState and the ConsensusState at the
  evidence height are looked up; the type switch hands \<^verbatim>\<open>tendermint.Evidence\<close> to the
  Tendermint package and answers any other type with \<^verbatim>\<open>ErrUnknownRequest\<close>; an error
  is returned as it is, and otherwise the new ClientState is stored and one event is
  emitted.
\<close>

definition CheckMisbehaviourAndUpdateState ::
  "Keeper \<Rightarrow> Context \<Rightarrow> Misbehaviour \<Rightarrow> unit result \<times> Context" where
  "CheckMisbehaviourAndUpdateState k ctx misbehaviour =
     (case GetClientState ctx (GetClientID misbehaviour) of
        None \<Rightarrow> (Err (Wrapf ErrClientNotFound (GetClientID misbehaviour)), ctx)
      | Some clientState \<Rightarrow>
          (case GetClientConsensusState ctx (GetClientID misbehaviour)
                  (to_uint64 (Misbehaviour_GetHeight misbehaviour)) of
             None \<Rightarrow> (Err (Wrapf ErrConsensusStateNotFound (GetClientID misbehaviour)), ctx)
           | Some consensusState \<Rightarrow>
               (case (case DynamicType misbehaviour of
                        TendermintEvidence \<Rightarrow>
                          tendermint_CheckMisbehaviourAndUpdateState k clientState
                            consensusState misbehaviour
                            (to_uint64 (Misbehaviour_GetHeight misbehaviour))
                      | OtherEvidence typeName \<Rightarrow>
                          Inl (Wrapf ErrUnknownRequest
                                 (''unrecognized IBC client evidence type: '' @ typeName))) of
                  Inl err \<Rightarrow> (Err err, ctx)
                | Inr clientState' \<Rightarrow>
                    (let ctx1 = SetClientState ctx clientState';
                         ctx2 = EmitEvents ctx1
                                  [EventTypeSubmitMisbehaviour (GetClientID misbehaviour)
                                     (Misbehaviour_ClientType misbehaviour)]
                     in (Ok (), ctx2)))))"

section \<open>The verifier's contract and a reference verifier\<close>

text \<open>
  Modelled from the spec: the body of \<^verbatim>\<open>tendermint.CheckValidityAndUpdateState\<close> is not
  among the sources. The spec gives its contract: it rejects the header or returns the
  next ClientState and a ConsensusState; an update takes an active client at some
  height to an active client at a height that is not lower, and the identifier of a
  client never changes.
\<close>

definition update_contract ::
  "(ClientState \<Rightarrow> Header \<Rightarrow> string \<Rightarrow> error + ClientState \<times> ConsensusState) \<Rightarrow> bool" where
  "update_contract f \<longleftrightarrow>
     (\<forall>cs header chainID cs' cons.
        f cs header chainID = Inr (cs', cons) \<longrightarrow> \<not> IsFrozen cs \<longrightarrow>
          GetID cs' = GetID cs \<and> GetLatestHeight cs \<le> GetLatestHeight cs' \<and> \<not> IsFrozen cs')"

text \<open>
  Modelled from the spec: the body of \<^verbatim>\<open>tendermint.CheckMisbehaviourAndUpdateState\<close> is
  not among the sources. The spec gives its contract: on confirmed misbehaviour it
  returns the ClientState with the frozen flag set and the frozen height recorded, which
  is the height it was called with; freezing leaves the latest height and the
  identifier as they are. Otherwise it returns its own rejection.
\<close>

definition misbehaviour_contract ::
  "(ClientState \<Rightarrow> ConsensusState \<Rightarrow> Misbehaviour \<Rightarrow> uint64 \<Rightarrow> error + ClientState) \<Rightarrow> bool" where
  "misbehaviour_contract f \<longleftrightarrow>
     (\<forall>cs cons m h cs'.
        f cs cons m h = Inr cs' \<longrightarrow>
          GetID cs' = GetID cs \<and> IsFrozen cs' \<and> FrozenHeight cs' = h \<and>
          GetLatestHeight cs' = GetLatestHeight cs)"

text \<open>
  Modelled from the spec: the body of \<^verbatim>\<open>k.initialize\<close> is not among the sources. The
  spec gives its contract: it materialises the initial ClientState of the identifier it
  is called with, or fails; the ClientState and the type tag are persisted by
  \<^verbatim>\<open>CreateClient\<close>, not by the initialisation.
\<close>

definition initialize_contract ::
  "(Context \<Rightarrow> string \<Rightarrow> ClientType \<Rightarrow> ConsensusState \<Rightarrow> (error + ClientState) \<times> Context)
     \<Rightarrow> bool" where
  "initialize_contract f \<longleftrightarrow>
     (\<forall>ctx clientID clientType cons r ctx1.
        f ctx clientID clientType cons = (r, ctx1) \<longrightarrow>
          clientStates ctx1 = clientStates ctx \<and> clientTypes ctx1 = clientTypes ctx \<and>
          (\<forall>cs. r = Inr cs \<longrightarrow> GetID cs = clientID))"

text \<open>
  Modelled from the spec: a reference verifier, the simplest one within the contracts
  above, used to run the operations on concrete inputs. Only the Tendermint tag has a
  strategy. A header is accepted unless its height is below the latest height (the spec
  leaves to the strategy whether a header at an already stored height is accepted; this
  one accepts it). Evidence proves misbehaviour when its two headers are at the
  evidence height and differ.
\<close>

definition spec_initialize ::
  "Context \<Rightarrow> string \<Rightarrow> ClientType \<Rightarrow> ConsensusState \<Rightarrow> (error + ClientState) \<times> Context" where
  "spec_initialize ctx clientID clientType consensusState =
     (case clientType of
        Tendermint \<Rightarrow>
          (Inr \<lparr>GetID = clientID, GetLatestHeight = Height consensusState,
                IsFrozen = False, FrozenHeight = 0, Params = []\<rparr>, ctx)
      | OtherClientType _ \<Rightarrow> (Inl ErrInvalidClientType, ctx))"

definition spec_CheckValidityAndUpdateState ::
  "ClientState \<Rightarrow> Header \<Rightarrow> string \<Rightarrow> error + ClientState \<times> ConsensusState" where
  "spec_CheckValidityAndUpdateState clientState header chainID =
     (if Header_GetHeight header < GetLatestHeight clientState
      then Inl (ErrVerifier ''header height below latest height'')
      else Inr (clientState\<lparr>GetLatestHeight := Header_GetHeight header\<rparr>,
                \<lparr>Height = Header_GetHeight header, Root = Header_Data header,
                 ValidatorSetHash = []\<rparr>))"

definition spec_CheckMisbehaviourAndUpdateState ::
  "ClientState \<Rightarrow> ConsensusState \<Rightarrow> Misbehaviour \<Rightarrow> uint64 \<Rightarrow> error + ClientState" where
  "spec_CheckMisbehaviourAndUpdateState clientState consensusState misbehaviour height =
     (if Header_GetHeight (Header1 misbehaviour) = height
         \<and> Header_GetHeight (Header2 misbehaviour) = height
         \<and> Header_Data (Header1 misbehaviour) \<noteq> Header_Data (Header2 misbehaviour)
      then Inr (clientState\<lparr>IsFrozen := True, FrozenHeight := height\<rparr>)
      else Inl (ErrVerifier ''evidence does not prove misbehaviour''))"

definition spec_keeper :: Keeper where
  "spec_keeper =
     \<lparr>initialize = spec_initialize,
      tendermint_CheckValidityAndUpdateState = spec_CheckValidityAndUpdateState,
      tendermint_CheckMisbehaviourAndUpdateState = spec_CheckMisbehaviourAndUpdateState\<rparr>"

section \<open>Concrete stores and inputs\<close>

definition chainA_active :: ClientState where
  "chainA_active =
     \<lparr>GetID = ''chainA'', GetLatestHeight = 5, IsFrozen = False, FrozenHeight = 0,
      Params = []\<rparr>"

definition chainA_frozen :: ClientState where
  "chainA_frozen =
     \<lparr>GetID = ''chainA'', GetLatestHeight = 5, IsFrozen = True, FrozenHeight = 3,
      Params = []\<rparr>"

definition snapshot5 :: ConsensusState where
  "snapshot5 = \<lparr>Height = 5, Root = ''root5'', ValidatorSetHash = []\<rparr>"

definition ctx_empty :: Context where
  "ctx_empty =
     \<lparr>ChainID = ''hub'', clientStates = Map.empty, clientTypes = Map.empty,
      consensusStates = Map.empty, events = []\<rparr>"

definition ctx_active :: Context where
  "ctx_active =
     \<lparr>ChainID = ''hub'', clientStates = [''chainA'' \<mapsto> chainA_active],
      clientTypes = [''chainA'' \<mapsto> Tendermint],
      consensusStates = [(''chainA'', 5) \<mapsto> snapshot5], events = []\<rparr>"

definition ctx_frozen :: Context where
  "ctx_frozen =
     \<lparr>ChainID = ''hub'', clientStates = [''chainA'' \<mapsto> chainA_frozen],
      clientTypes = [''chainA'' \<mapsto> Tendermint],
      consensusStates = [(''chainA'', 5) \<mapsto> snapshot5], events = []\<rparr>"

definition header_tm :: "uint64 \<Rightarrow> string \<Rightarrow> Header" where
  "header_tm h d = \<lparr>Header_ClientType = Tendermint, Header_GetHeight = h, Header_Data = d\<rparr>"

definition header_other :: Header where
  "header_other =
     \<lparr>Header_ClientType = OtherClientType 2, Header_GetHeight = 6, Header_Data = ''x''\<rparr>"

definition chainB_active :: ClientState where
  "chainB_active =
     \<lparr>GetID = ''chainB'', GetLatestHeight = 5, IsFrozen = False, FrozenHeight = 0,
      Params = []\<rparr>"

definition ctx_other :: Context where
  "ctx_other =
     \<lparr>ChainID = ''hub'', clientStates = [''chainB'' \<mapsto> chainB_active],
      clientTypes = [''chainB'' \<mapsto> OtherClientType 2],
      consensusStates = [(''chainB'', 5) \<mapsto> snapshot5], events = []\<rparr>"

definition ctx_tag_only :: Context where
  "ctx_tag_only =
     \<lparr>ChainID = ''hub'', clientStates = Map.empty,
      clientTypes = [''chainA'' \<mapsto> Tendermint],
      consensusStates = Map.empty, events = []\<rparr>"

definition evidence :: "EvidenceType \<Rightarrow> string \<Rightarrow> string \<Rightarrow> Misbehaviour" where
  "evidence ty clientID d =
     \<lparr>DynamicType = ty, GetClientID = clientID, Misbehaviour_GetHeight = 5,
      Misbehaviour_ClientType = Tendermint,
      Header1 = header_tm 5 ''a'', Header2 = header_tm 5 d\<rparr>"

definition chainB_frozen :: ClientState where
  "chainB_frozen =
     \<lparr>GetID = ''chainB'', GetLatestHeight = 5, IsFrozen = True, FrozenHeight = 5,
      Params = []\<rparr>"


section \<open>Runs of updates and the consistency of the store\<close>

text \<open>
  \<open>UpdateClients\<close> applies \<^verbatim>\<open>UpdateClient\<close> to each header of a list in order and
  queries the ClientState after each update. The result is the list of these states,
  or \<open>None\<close> as soon as an update does not succeed.
\<close>

fun UpdateClients :: "Keeper \<Rightarrow> Context \<Rightarrow> string \<Rightarrow> Header list \<Rightarrow> ClientState list option" where
  "UpdateClients k ctx clientID [] = Some []"
| "UpdateClients k ctx clientID (h # hs) =
     (case UpdateClient k ctx clientID h of
        (Ok u, ctx') \<Rightarrow>
          (case GetClientState ctx' clientID of
             None \<Rightarrow> None
           | Some cs \<Rightarrow> map_option ((#) cs) (UpdateClients k ctx' clientID hs))
      | (Err e, ctx') \<Rightarrow> None
      | (Panic msg, ctx') \<Rightarrow> None)"

text \<open>
  A store is consistent when the type tags and the ClientStates are stored for the same
  identifiers and every ClientState is stored under the identifier it carries.
\<close>

definition store_consistent :: "Context \<Rightarrow> bool" where
  "store_consistent ctx \<longleftrightarrow>
     dom (clientStates ctx) = dom (clientTypes ctx) \<and>
     (\<forall>clientID cs. clientStates ctx clientID = Some cs \<longrightarrow> GetID cs = clientID)"

section \<open>What each operation does when it returns\<close>

lemmas store_defs =
  GetClientState_def SetClientState_def GetClientType_def SetClientType_def
  GetClientConsensusState_def SetClientConsensusState_def EmitEvents_def

lemma UpdateClient_Ok:
  assumes "UpdateClient k ctx clientID header = (Ok u, ctx')"
  shows "\<exists>cs cs' cons.
           GetClientType ctx clientID = Some Tendermint \<and>
           Header_ClientType header = Tendermint \<and>
           GetClientState ctx clientID = Some cs \<and> \<not> IsFrozen cs \<and>
           tendermint_CheckValidityAndUpdateState k cs header (ChainID ctx) = Inr (cs', cons) \<and>
           ctx' = EmitEvents
                    (SetClientConsensusState (SetClientState ctx cs') clientID
                       (Header_GetHeight header) cons)
                    [EventTypeUpdateClient clientID, EventTypeMessage]"
  using assms
  by (auto simp: UpdateClient_def Let_def
      split: option.splits if_splits ClientType.splits sum.splits prod.splits)

lemma UpdateClient_Err:
  assumes "UpdateClient k ctx clientID header = (Err e, ctx')"
  shows "ctx' = ctx"
  using assms
  by (auto simp: UpdateClient_def Let_def
      split: option.splits if_splits ClientType.splits sum.splits prod.splits)

lemma UpdateClient_no_Panic:
  "UpdateClient k ctx clientID header \<noteq> (Panic msg, ctx')"
  by (auto simp: UpdateClient_def Let_def
      split: option.splits if_splits ClientType.splits sum.splits prod.splits)

lemma CheckMisbehaviour_Ok:
  assumes "CheckMisbehaviourAndUpdateState k ctx m = (Ok u, ctx')"
  shows "\<exists>cs cons cs'.
           GetClientState ctx (GetClientID m) = Some cs \<and>
           GetClientConsensusState ctx (GetClientID m) (to_uint64 (Misbehaviour_GetHeight m))
             = Some cons \<and>
           DynamicType m = TendermintEvidence \<and>
           tendermint_CheckMisbehaviourAndUpdateState k cs cons m
             (to_uint64 (Misbehaviour_GetHeight m)) = Inr cs' \<and>
           ctx' = EmitEvents (SetClientState ctx cs')
                    [EventTypeSubmitMisbehaviour (GetClientID m) (Misbehaviour_ClientType m)]"
  using assms
  by (auto simp: CheckMisbehaviourAndUpdateState_def Let_def
      split: option.splits EvidenceType.splits sum.splits)

lemma CheckMisbehaviour_Err:
  assumes "CheckMisbehaviourAndUpdateState k ctx m = (Err e, ctx')"
  shows "ctx' = ctx"
  using assms
  by (auto simp: CheckMisbehaviourAndUpdateState_def Let_def
      split: option.splits EvidenceType.splits sum.splits)

lemma CheckMisbehaviour_no_Panic:
  "CheckMisbehaviourAndUpdateState k ctx m \<noteq> (Panic msg, ctx')"
  by (auto simp: CheckMisbehaviourAndUpdateState_def Let_def
      split: option.splits EvidenceType.splits sum.splits)

lemma CreateClient_Ok:
  assumes "CreateClient k ctx clientID clientType cons = (Ok cs, ctx')"
  shows "\<exists>ctx1.
           GetClientState ctx clientID = None \<and> GetClientType ctx clientID = None \<and>
           initialize k ctx clientID clientType cons = (Inr cs, ctx1) \<and>
           ctx' = EmitEvents (SetClientType (SetClientState ctx1 cs) clientID clientType)
                    [EventTypeCreateClient clientID, EventTypeMessage]"
  using assms
  by (auto simp: CreateClient_def Let_def split: option.splits sum.splits prod.splits)

lemma CreateClient_Err:
  assumes "CreateClient k ctx clientID clientType cons = (Err e, ctx')"
  shows "ctx' = ctx \<or>
         (\<exists>err. initialize k ctx clientID clientType cons = (Inl err, ctx'))"
  using assms
  by (auto simp: CreateClient_def Let_def split: option.splits sum.splits prod.splits)

lemma CreateClient_Panic:
  assumes "CreateClient k ctx clientID clientType cons = (Panic msg, ctx')"
  shows "ctx' = ctx \<and> GetClientState ctx clientID = None \<and> GetClientType ctx clientID \<noteq> None"
  using assms
  by (auto simp: CreateClient_def Let_def split: option.splits sum.splits prod.splits)

section \<open>Updating a frozen client\<close>

text \<open>
  C1, as amended. When the stored ClientState of a client is frozen, \<^verbatim>\<open>UpdateClient\<close>
  fails for every header and returns the context unchanged, so no ClientState, type tag
  or ConsensusState entry is modified. The error is \<^verbatim>\<open>ErrClientFrozen\<close> when the
  header's client type equals the stored type tag; the two checks that come first
  answer \<^verbatim>\<open>ErrClientTypeNotFound\<close> when no tag is stored and \<^verbatim>\<open>ErrInvalidConsensus\<close>
  when the header's type differs from the tag.
\<close>

theorem UpdateClient_frozen:
  assumes "GetClientState ctx clientID = Some cs" and "IsFrozen cs"
  shows "UpdateClient k ctx clientID header =
           (Err (Wrapf (case GetClientType ctx clientID of
                          None \<Rightarrow> ErrClientTypeNotFound
                        | Some t \<Rightarrow> if Header_ClientType header \<noteq> t
                                    then ErrInvalidConsensus else ErrClientFrozen)
                       (''cannot update client with ID '' @ clientID)),
            ctx)"
  using assms by (simp add: UpdateClient_def split: option.splits)

theorem UpdateClient_frozen_witness:
  "GetClientState ctx_frozen ''chainA'' = Some chainA_frozen \<and> IsFrozen chainA_frozen \<and>
   UpdateClient spec_keeper ctx_frozen ''chainA'' (header_tm 6 ''x'') =
     (Err (Wrapf ErrClientFrozen ''cannot update client with ID chainA''), ctx_frozen)"
proof -
  have s: "GetClientState ctx_frozen ''chainA'' = Some chainA_frozen"
    by (simp add: GetClientState_def ctx_frozen_def)
  have f: "IsFrozen chainA_frozen"
    by (simp add: chainA_frozen_def)
  have t: "GetClientType ctx_frozen ''chainA'' = Some Tendermint"
    by (simp add: GetClientType_def ctx_frozen_def)
  show ?thesis
    using UpdateClient_frozen [OF s f, of spec_keeper "header_tm 6 ''x''"] s f t
    by (simp add: header_tm_def)
qed

text \<open>
  The claim as stated fails: a header whose client type differs from the stored tag is
  answered with \<^verbatim>\<open>ErrInvalidConsensus\<close> although the client is frozen.
\<close>

theorem UpdateClient_frozen_counterexample:
  "IsFrozen chainA_frozen \<and>
   GetClientState ctx_frozen ''chainA'' = Some chainA_frozen \<and>
   UpdateClient spec_keeper ctx_frozen ''chainA'' header_other =
     (Err (Wrapf ErrInvalidConsensus ''cannot update client with ID chainA''), ctx_frozen) \<and>
   Cause (Wrapf ErrInvalidConsensus ''cannot update client with ID chainA'') \<noteq> ErrClientFrozen"
  by (simp add: UpdateClient_def GetClientType_def GetClientState_def ctx_frozen_def
      chainA_frozen_def header_other_def)

section \<open>Creating a client twice\<close>

text \<open>
  C9. When \<^verbatim>\<open>CreateClient\<close> has succeeded for an identifier (the created ClientState
  carrying that identifier), a second \<^verbatim>\<open>CreateClient\<close> with the same identifier,
  whatever its type and initial snapshot, fails with \<^verbatim>\<open>ErrClientExists\<close> and returns
  the context unchanged, so the original ClientState is still the one stored.
\<close>

theorem CreateClient_twice:
  assumes "CreateClient k ctx clientID clientType cons = (Ok cs, ctx')"
    and "GetID cs = clientID"
  shows "CreateClient k ctx' clientID clientType2 cons2 =
           (Err (Wrapf ErrClientExists (''cannot create client with ID '' @ clientID)), ctx')
         \<and> GetClientState ctx' clientID = Some cs"
proof -
  from CreateClient_Ok [OF assms(1)] obtain ctx1 where
    ctx': "ctx' = EmitEvents (SetClientType (SetClientState ctx1 cs) clientID clientType)
                    [EventTypeCreateClient clientID, EventTypeMessage]"
    by blast
  have stored: "GetClientState ctx' clientID = Some cs"
    using assms(2) by (simp add: ctx' store_defs)
  then show ?thesis
    by (simp add: CreateClient_def)
qed

theorem CreateClient_twice_witness:
  "CreateClient spec_keeper ctx_empty ''chainA'' Tendermint snapshot5 =
     (Ok chainA_active,
      ctx_empty\<lparr>clientStates := [''chainA'' \<mapsto> chainA_active],
                clientTypes := [''chainA'' \<mapsto> Tendermint],
                events := [EventTypeCreateClient ''chainA'', EventTypeMessage]\<rparr>)
   \<and> GetID chainA_active = ''chainA''
   \<and> CreateClient spec_keeper
        (ctx_empty\<lparr>clientStates := [''chainA'' \<mapsto> chainA_active],
                   clientTypes := [''chainA'' \<mapsto> Tendermint],
                   events := [EventTypeCreateClient ''chainA'', EventTypeMessage]\<rparr>)
        ''chainA'' Tendermint snapshot5 =
       (Err (Wrapf ErrClientExists ''cannot create client with ID chainA''),
        ctx_empty\<lparr>clientStates := [''chainA'' \<mapsto> chainA_active],
                  clientTypes := [''chainA'' \<mapsto> Tendermint],
                  events := [EventTypeCreateClient ''chainA'', EventTypeMessage]\<rparr>)"
proof -
  have first: "CreateClient spec_keeper ctx_empty ''chainA'' Tendermint snapshot5 =
     (Ok chainA_active,
      ctx_empty\<lparr>clientStates := [''chainA'' \<mapsto> chainA_active],
                clientTypes := [''chainA'' \<mapsto> Tendermint],
                events := [EventTypeCreateClient ''chainA'', EventTypeMessage]\<rparr>)"
    by (simp add: CreateClient_def store_defs spec_keeper_def spec_initialize_def
        ctx_empty_def snapshot5_def chainA_active_def)
  have ident: "GetID chainA_active = ''chainA''"
    by (simp add: chainA_active_def)
  show ?thesis
    using CreateClient_twice [OF first ident, of Tendermint snapshot5] first ident
    by simp
qed

section \<open>Failed operations write nothing\<close>



section \<open>Misbehaviour on a client that is already frozen\<close>

text \<open>
  C10. \<^verbatim>\<open>CheckMisbehaviourAndUpdateState\<close> does not look at the frozen flag. When a
  ClientState is stored for the evidence's client identifier and a ConsensusState at
  the evidence height, evidence that the Tendermint strategy accepts is persisted even
  though the stored client is already frozen: the call succeeds, the strategy's result
  is written with \<^verbatim>\<open>SetClientState\<close> and replaces the stored ClientState.
\<close>

theorem CheckMisbehaviour_on_frozen_client:
  assumes "GetClientState ctx (GetClientID m) = Some cs"
    and "IsFrozen cs"
    and "GetClientConsensusState ctx (GetClientID m) (to_uint64 (Misbehaviour_GetHeight m))
           = Some cons"
    and "DynamicType m = TendermintEvidence"
    and "tendermint_CheckMisbehaviourAndUpdateState k cs cons m
           (to_uint64 (Misbehaviour_GetHeight m)) = Inr cs'"
    and "GetID cs' = GetClientID m"
  shows "CheckMisbehaviourAndUpdateState k ctx m =
           (Ok (),
            EmitEvents (SetClientState ctx cs')
              [EventTypeSubmitMisbehaviour (GetClientID m) (Misbehaviour_ClientType m)])
         \<and> GetClientState (snd (CheckMisbehaviourAndUpdateState k ctx m)) (GetClientID m)
             = Some cs'"
proof -
  have run: "CheckMisbehaviourAndUpdateState k ctx m =
           (Ok (),
            EmitEvents (SetClientState ctx cs')
              [EventTypeSubmitMisbehaviour (GetClientID m) (Misbehaviour_ClientType m)])"
    using assms(1,3,4,5) by (simp add: CheckMisbehaviourAndUpdateState_def)
  moreover have "GetClientState
                   (EmitEvents (SetClientState ctx cs')
                      [EventTypeSubmitMisbehaviour (GetClientID m) (Misbehaviour_ClientType m)])
                   (GetClientID m) = Some cs'"
    using assms(6) by (simp add: store_defs)
  ultimately show ?thesis by simp
qed

theorem CheckMisbehaviour_on_frozen_client_witness:
  "GetClientState ctx_frozen ''chainA'' = Some chainA_frozen \<and> IsFrozen chainA_frozen \<and>
   FrozenHeight chainA_frozen = 3 \<and>
   CheckMisbehaviourAndUpdateState spec_keeper ctx_frozen
       (evidence TendermintEvidence ''chainA'' ''b'') =
     (Ok (),
      EmitEvents (SetClientState ctx_frozen (chainA_frozen\<lparr>FrozenHeight := 5\<rparr>))
        [EventTypeSubmitMisbehaviour ''chainA'' Tendermint]) \<and>
   GetClientState
       (snd (CheckMisbehaviourAndUpdateState spec_keeper ctx_frozen
               (evidence TendermintEvidence ''chainA'' ''b'')))
       ''chainA'' = Some (chainA_frozen\<lparr>FrozenHeight := 5\<rparr>)"
proof -
  let ?m = "evidence TendermintEvidence ''chainA'' ''b''"
  have id: "GetClientID ?m = ''chainA''" and ty: "DynamicType ?m = TendermintEvidence"
    and h: "to_uint64 (Misbehaviour_GetHeight ?m) = 5"
    and ct: "Misbehaviour_ClientType ?m = Tendermint"
    by (simp_all add: evidence_def to_uint64_def)
  have s: "GetClientState ctx_frozen (GetClientID ?m) = Some chainA_frozen"
    by (simp add: id store_defs ctx_frozen_def)
  have f: "IsFrozen chainA_frozen" and fh: "FrozenHeight chainA_frozen = 3"
    by (simp_all add: chainA_frozen_def)
  have c: "GetClientConsensusState ctx_frozen (GetClientID ?m)
             (to_uint64 (Misbehaviour_GetHeight ?m)) = Some snapshot5"
    by (simp add: id h store_defs ctx_frozen_def)
  have v: "tendermint_CheckMisbehaviourAndUpdateState spec_keeper chainA_frozen snapshot5 ?m
             (to_uint64 (Misbehaviour_GetHeight ?m)) = Inr (chainA_frozen\<lparr>FrozenHeight := 5\<rparr>)"
    by (simp add: h spec_keeper_def spec_CheckMisbehaviourAndUpdateState_def)
       (simp add: evidence_def header_tm_def chainA_frozen_def)
  have i: "GetID (chainA_frozen\<lparr>FrozenHeight := 5\<rparr>) = GetClientID ?m"
    by (simp add: id chainA_frozen_def)
  show ?thesis
    using CheckMisbehaviour_on_frozen_client [OF s f c ty v i] s f fh
    unfolding id ct by blast
qed

section \<open>A type tag without a strategy\<close>

text \<open>
  C8, as amended. When the stored type tag of a client is not the Tendermint tag, the
  only one with a strategy, \<^verbatim>\<open>UpdateClient\<close> fails for every header and returns the
  context unchanged: it is never a success. The error is \<^verbatim>\<open>ErrInvalidClientType\<close> when
  the checks that come first pass, that is when the header's client type equals the
  tag and a ClientState is stored and not frozen; otherwise it is the error of the
  first check that fails.
\<close>

theorem UpdateClient_unregistered_tag:
  assumes "GetClientType ctx clientID = Some (OtherClientType n)"
  shows "UpdateClient k ctx clientID header =
           (Err (Wrapf (if Header_ClientType header \<noteq> OtherClientType n
                        then ErrInvalidConsensus
                        else case GetClientState ctx clientID of
                               None \<Rightarrow> ErrClientNotFound
                             | Some cs \<Rightarrow> if IsFrozen cs then ErrClientFrozen
                                         else ErrInvalidClientType)
                       (''cannot update client with ID '' @ clientID)),
            ctx)"
  using assms by (simp add: UpdateClient_def split: option.splits)

theorem UpdateClient_unregistered_tag_witness:
  "GetClientType ctx_other ''chainB'' = Some (OtherClientType 2) \<and>
   UpdateClient spec_keeper ctx_other ''chainB'' header_other =
     (Err (Wrapf ErrInvalidClientType ''cannot update client with ID chainB''), ctx_other)"
proof -
  have t: "GetClientType ctx_other ''chainB'' = Some (OtherClientType 2)"
    by (simp add: store_defs ctx_other_def)
  have s: "GetClientState ctx_other ''chainB'' = Some chainB_active"
    by (simp add: store_defs ctx_other_def)
  show ?thesis
    using UpdateClient_unregistered_tag [OF t, of spec_keeper header_other] t s
    by (simp add: header_other_def chainB_active_def)
qed

text \<open>
  The claim as stated fails: for a client whose tag has no strategy, a header of the
  Tendermint type is answered with \<^verbatim>\<open>ErrInvalidConsensus\<close>, not with
  \<^verbatim>\<open>ErrInvalidClientType\<close>.
\<close>

theorem UpdateClient_unregistered_tag_counterexample:
  "GetClientType ctx_other ''chainB'' = Some (OtherClientType 2) \<and>
   UpdateClient spec_keeper ctx_other ''chainB'' (header_tm 6 ''x'') =
     (Err (Wrapf ErrInvalidConsensus ''cannot update client with ID chainB''), ctx_other) \<and>
   Cause (Wrapf ErrInvalidConsensus ''cannot update client with ID chainB'')
     \<noteq> ErrInvalidClientType"
  by (simp add: UpdateClient_def store_defs ctx_other_def header_tm_def)

section \<open>Consensus types of headers and evidence\<close>

lemma CheckMisbehaviour_ignores_tags:
  "CheckMisbehaviourAndUpdateState k (ctx\<lparr>clientTypes := tags\<rparr>) m =
     (case CheckMisbehaviourAndUpdateState k ctx m of
        (r, ctx') \<Rightarrow> (r, ctx'\<lparr>clientTypes := tags\<rparr>))"
  by (simp add: CheckMisbehaviourAndUpdateState_def store_defs Let_def
      split: option.splits EvidenceType.splits sum.splits)

text \<open>
  C6, as amended. \<^verbatim>\<open>UpdateClient\<close> answers a header whose client type differs from
  the stored type tag with \<^verbatim>\<open>ErrInvalidConsensus\<close> and returns the context unchanged.
  \<^verbatim>\<open>CheckMisbehaviourAndUpdateState\<close> does not read the stored tag: replacing the
  tags of the store by any others leaves its outcome and its writes the same. What it
  rejects at the level of the keeper is evidence whose dynamic type is not
  \<^verbatim>\<open>tendermint.Evidence\<close>, with \<^verbatim>\<open>ErrUnknownRequest\<close> once the ClientState and the
  ConsensusState are found, and without any state change.
\<close>

theorem consensus_type_mismatch:
  "(GetClientType ctx clientID = Some t \<and> Header_ClientType header \<noteq> t \<longrightarrow>
      UpdateClient k ctx clientID header =
        (Err (Wrapf ErrInvalidConsensus (''cannot update client with ID '' @ clientID)), ctx))
   \<and> CheckMisbehaviourAndUpdateState k (ctx\<lparr>clientTypes := tags\<rparr>) m =
       (case CheckMisbehaviourAndUpdateState k ctx m of
          (r, ctx') \<Rightarrow> (r, ctx'\<lparr>clientTypes := tags\<rparr>))
   \<and> (DynamicType m = OtherEvidence typeName \<longrightarrow>
        CheckMisbehaviourAndUpdateState k ctx m =
          (Err (case GetClientState ctx (GetClientID m) of
                  None \<Rightarrow> Wrapf ErrClientNotFound (GetClientID m)
                | Some cs \<Rightarrow>
                    (case GetClientConsensusState ctx (GetClientID m)
                            (to_uint64 (Misbehaviour_GetHeight m)) of
                       None \<Rightarrow> Wrapf ErrConsensusStateNotFound (GetClientID m)
                     | Some cons \<Rightarrow>
                         Wrapf ErrUnknownRequest
                           (''unrecognized IBC client evidence type: '' @ typeName))),
           ctx))"
proof (intro conjI impI)
  assume "GetClientType ctx clientID = Some t \<and> Header_ClientType header \<noteq> t"
  then show "UpdateClient k ctx clientID header =
        (Err (Wrapf ErrInvalidConsensus (''cannot update client with ID '' @ clientID)), ctx)"
    by (simp add: UpdateClient_def)
next
  show "CheckMisbehaviourAndUpdateState k (ctx\<lparr>clientTypes := tags\<rparr>) m =
       (case CheckMisbehaviourAndUpdateState k ctx m of
          (r, ctx') \<Rightarrow> (r, ctx'\<lparr>clientTypes := tags\<rparr>))"
    by (rule CheckMisbehaviour_ignores_tags)
next
  assume "DynamicType m = OtherEvidence typeName"
  then show "CheckMisbehaviourAndUpdateState k ctx m =
          (Err (case GetClientState ctx (GetClientID m) of
                  None \<Rightarrow> Wrapf ErrClientNotFound (GetClientID m)
                | Some cs \<Rightarrow>
                    (case GetClientConsensusState ctx (GetClientID m)
                            (to_uint64 (Misbehaviour_GetHeight m)) of
                       None \<Rightarrow> Wrapf ErrConsensusStateNotFound (GetClientID m)
                     | Some cons \<Rightarrow>
                         Wrapf ErrUnknownRequest
                           (''unrecognized IBC client evidence type: '' @ typeName))),
           ctx)"
    by (simp add: CheckMisbehaviourAndUpdateState_def split: option.splits)
qed

theorem consensus_type_mismatch_witness:
  "GetClientType ctx_active ''chainA'' = Some Tendermint \<and>
   Header_ClientType header_other \<noteq> Tendermint \<and>
   UpdateClient spec_keeper ctx_active ''chainA'' header_other =
     (Err (Wrapf ErrInvalidConsensus ''cannot update client with ID chainA''), ctx_active) \<and>
   DynamicType (evidence (OtherEvidence ''solomachine.Evidence'') ''chainA'' ''b'')
     = OtherEvidence ''solomachine.Evidence'' \<and>
   CheckMisbehaviourAndUpdateState spec_keeper ctx_active
       (evidence (OtherEvidence ''solomachine.Evidence'') ''chainA'' ''b'') =
     (Err (Wrapf ErrUnknownRequest
             ''unrecognized IBC client evidence type: solomachine.Evidence''), ctx_active)"
proof -
  let ?m = "evidence (OtherEvidence ''solomachine.Evidence'') ''chainA'' ''b''"
  have t: "GetClientType ctx_active ''chainA'' = Some Tendermint"
    by (simp add: store_defs ctx_active_def)
  have h: "Header_ClientType header_other \<noteq> Tendermint"
    by (simp add: header_other_def)
  have d: "DynamicType ?m = OtherEvidence ''solomachine.Evidence''"
    by (simp add: evidence_def)
  have s: "GetClientState ctx_active (GetClientID ?m) = Some chainA_active"
    by (simp add: evidence_def store_defs ctx_active_def)
  have c: "GetClientConsensusState ctx_active (GetClientID ?m)
             (to_uint64 (Misbehaviour_GetHeight ?m)) = Some snapshot5"
    by (simp add: evidence_def to_uint64_def store_defs ctx_active_def)
  show ?thesis
    using consensus_type_mismatch
      [of ctx_active "''chainA''" Tendermint header_other spec_keeper _ ?m
          "''solomachine.Evidence''"]
      t h d s c
    by simp
qed

text \<open>
  The claim as stated fails: on a client whose stored tag is not the Tendermint tag,
  tendermint evidence, which claims the Tendermint type, is not rejected. The call
  succeeds and the stored ClientState is replaced by a frozen one.
\<close>

theorem consensus_type_mismatch_counterexample:
  "GetClientType ctx_other ''chainB'' = Some (OtherClientType 2) \<and>
   Misbehaviour_ClientType (evidence TendermintEvidence ''chainB'' ''b'') = Tendermint \<and>
   GetClientState ctx_other ''chainB'' = Some chainB_active \<and>
   CheckMisbehaviourAndUpdateState spec_keeper ctx_other
       (evidence TendermintEvidence ''chainB'' ''b'') =
     (Ok (),
      EmitEvents (SetClientState ctx_other chainB_frozen)
        [EventTypeSubmitMisbehaviour ''chainB'' Tendermint]) \<and>
   GetClientState
       (EmitEvents (SetClientState ctx_other chainB_frozen)
          [EventTypeSubmitMisbehaviour ''chainB'' Tendermint])
       ''chainB'' = Some chainB_frozen \<and>
   chainB_frozen \<noteq> chainB_active"
  by (simp add: CheckMisbehaviourAndUpdateState_def store_defs ctx_other_def evidence_def
      to_uint64_def spec_keeper_def spec_CheckMisbehaviourAndUpdateState_def header_tm_def
      chainB_active_def chainB_frozen_def)

section \<open>The stored consensus states\<close>







section \<open>The reference verifier is within the contracts\<close>

lemma spec_keeper_update_contract:
  "update_contract (tendermint_CheckValidityAndUpdateState spec_keeper)"
  by (auto simp: update_contract_def spec_keeper_def spec_CheckValidityAndUpdateState_def
      split: if_splits)

lemma spec_keeper_misbehaviour_contract:
  "misbehaviour_contract (tendermint_CheckMisbehaviourAndUpdateState spec_keeper)"
  by (auto simp: misbehaviour_contract_def spec_keeper_def
      spec_CheckMisbehaviourAndUpdateState_def split: if_splits)

lemma spec_keeper_initialize_contract:
  "initialize_contract (initialize spec_keeper)"
  by (auto simp: initialize_contract_def spec_keeper_def spec_initialize_def
      split: ClientType.splits)

section \<open>Freezing a client\<close>

text \<open>
  C3. With a Tendermint strategy within its contract, a ClientState stored for the
  evidence's client identifier and a ConsensusState stored at the evidence height,
  tendermint evidence that the strategy confirms makes
  \<^verbatim>\<open>CheckMisbehaviourAndUpdateState\<close> succeed; the ClientState stored afterwards is
  frozen, its frozen height is the evidence height, its latest height is the one it had
  before, and no ConsensusState entry (and no type tag) has changed.
\<close>

theorem CheckMisbehaviour_freezes:
  assumes "misbehaviour_contract (tendermint_CheckMisbehaviourAndUpdateState k)"
    and "GetClientState ctx (GetClientID m) = Some cs"
    and "GetID cs = GetClientID m"
    and "GetClientConsensusState ctx (GetClientID m) (to_uint64 (Misbehaviour_GetHeight m))
           = Some cons"
    and "DynamicType m = TendermintEvidence"
    and "tendermint_CheckMisbehaviourAndUpdateState k cs cons m
           (to_uint64 (Misbehaviour_GetHeight m)) = Inr cs'"
  shows "\<exists>ctx'. CheckMisbehaviourAndUpdateState k ctx m = (Ok (), ctx') \<and>
           GetClientState ctx' (GetClientID m) = Some cs' \<and>
           IsFrozen cs' \<and>
           FrozenHeight cs' = to_uint64 (Misbehaviour_GetHeight m) \<and>
           GetLatestHeight cs' = GetLatestHeight cs \<and>
           consensusStates ctx' = consensusStates ctx \<and>
           clientTypes ctx' = clientTypes ctx"
proof -
  let ?ctx' = "EmitEvents (SetClientState ctx cs')
                 [EventTypeSubmitMisbehaviour (GetClientID m) (Misbehaviour_ClientType m)]"
  from assms(1,6) have c: "GetID cs' = GetID cs" "IsFrozen cs'"
    "FrozenHeight cs' = to_uint64 (Misbehaviour_GetHeight m)"
    "GetLatestHeight cs' = GetLatestHeight cs"
    unfolding misbehaviour_contract_def by blast+
  have run: "CheckMisbehaviourAndUpdateState k ctx m = (Ok (), ?ctx')"
    using assms(2,4,5,6) by (simp add: CheckMisbehaviourAndUpdateState_def)
  have "GetClientState ?ctx' (GetClientID m) = Some cs'"
    using c(1) assms(3) by (simp add: store_defs)
  moreover have "consensusStates ?ctx' = consensusStates ctx"
    and "clientTypes ?ctx' = clientTypes ctx"
    by (simp_all add: store_defs)
  ultimately show ?thesis
    using run c by blast
qed

theorem CheckMisbehaviour_freezes_witness:
  "misbehaviour_contract (tendermint_CheckMisbehaviourAndUpdateState spec_keeper) \<and>
   GetClientState ctx_active ''chainA'' = Some chainA_active \<and>
   \<not> IsFrozen chainA_active \<and>
   (\<exists>ctx'. CheckMisbehaviourAndUpdateState spec_keeper ctx_active
             (evidence TendermintEvidence ''chainA'' ''b'') = (Ok (), ctx') \<and>
          GetClientState ctx' ''chainA''
            = Some (chainA_active\<lparr>IsFrozen := True, FrozenHeight := 5\<rparr>) \<and>
          consensusStates ctx' = consensusStates ctx_active)"
proof -
  let ?m = "evidence TendermintEvidence ''chainA'' ''b''"
  have id: "GetClientID ?m = ''chainA''" and ty: "DynamicType ?m = TendermintEvidence"
    and h: "to_uint64 (Misbehaviour_GetHeight ?m) = 5"
    by (simp_all add: evidence_def to_uint64_def)
  have s: "GetClientState ctx_active (GetClientID ?m) = Some chainA_active"
    by (simp add: id store_defs ctx_active_def)
  have i: "GetID chainA_active = GetClientID ?m" and nf: "\<not> IsFrozen chainA_active"
    by (simp_all add: id chainA_active_def)
  have c: "GetClientConsensusState ctx_active (GetClientID ?m)
             (to_uint64 (Misbehaviour_GetHeight ?m)) = Some snapshot5"
    by (simp add: id h store_defs ctx_active_def)
  have v: "tendermint_CheckMisbehaviourAndUpdateState spec_keeper chainA_active snapshot5 ?m
             (to_uint64 (Misbehaviour_GetHeight ?m))
           = Inr (chainA_active\<lparr>IsFrozen := True, FrozenHeight := 5\<rparr>)"
    by (simp add: h spec_keeper_def spec_CheckMisbehaviourAndUpdateState_def)
       (simp add: evidence_def header_tm_def)
  show ?thesis
    using CheckMisbehaviour_freezes [OF spec_keeper_misbehaviour_contract s i c ty v]
      spec_keeper_misbehaviour_contract s nf
    unfolding id by blast
qed

section \<open>Sequences of updates\<close>

lemma UpdateClient_step:
  assumes "update_contract (tendermint_CheckValidityAndUpdateState k)"
    and "GetClientState ctx clientID = Some cs0"
    and "GetID cs0 = clientID"
    and "UpdateClient k ctx clientID header = (Ok u, ctx')"
  shows "\<exists>cs1. GetClientState ctx' clientID = Some cs1 \<and> GetID cs1 = clientID \<and>
               GetLatestHeight cs0 \<le> GetLatestHeight cs1 \<and>
               \<not> IsFrozen cs0 \<and> \<not> IsFrozen cs1"
proof -
  from UpdateClient_Ok [OF assms(4)] assms(2) obtain cs' cons where
    nf: "\<not> IsFrozen cs0"
    and v: "tendermint_CheckValidityAndUpdateState k cs0 header (ChainID ctx) = Inr (cs', cons)"
    and ctx': "ctx' = EmitEvents
                 (SetClientConsensusState (SetClientState ctx cs') clientID
                    (Header_GetHeight header) cons)
                 [EventTypeUpdateClient clientID, EventTypeMessage]"
    by auto
  from assms(1) v nf have c: "GetID cs' = GetID cs0"
    "GetLatestHeight cs0 \<le> GetLatestHeight cs'" "\<not> IsFrozen cs'"
    unfolding update_contract_def by blast+
  have "GetClientState ctx' clientID = Some cs'"
    using c(1) assms(3) by (simp add: ctx' store_defs)
  with c nf assms(3) show ?thesis by simp
qed

text \<open>
  C2. With a Tendermint strategy within its contract and an active ClientState stored
  under its own identifier, let every header of a list be accepted in turn by
  \<^verbatim>\<open>UpdateClient\<close>. Then there is one ClientState per header, the latest heights of the
  initial state and of the states after each update form a non-decreasing sequence,
  and none of these states is frozen.
\<close>

theorem UpdateClients_heights_nondecreasing:
  assumes "update_contract (tendermint_CheckValidityAndUpdateState k)"
    and "GetClientState ctx clientID = Some cs0"
    and "GetID cs0 = clientID"
    and "\<not> IsFrozen cs0"
    and "UpdateClients k ctx clientID hs = Some css"
  shows "length css = length hs \<and>
         sorted (map GetLatestHeight (cs0 # css)) \<and>
         (\<forall>cs \<in> set (cs0 # css). \<not> IsFrozen cs)"
  using assms(2-5)
proof (induction hs arbitrary: ctx cs0 css)
  case Nil
  then show ?case by simp
next
  case (Cons h hs)
  from Cons.prems(4) obtain u ctx' cs1 css1 where
    run: "UpdateClient k ctx clientID h = (Ok u, ctx')"
    and q: "GetClientState ctx' clientID = Some cs1"
    and rest: "UpdateClients k ctx' clientID hs = Some css1"
    and css: "css = cs1 # css1"
    by (auto split: prod.splits result.splits option.splits)
  from UpdateClient_step [OF assms(1) Cons.prems(1,2) run] q
  have step: "GetID cs1 = clientID" "GetLatestHeight cs0 \<le> GetLatestHeight cs1"
    "\<not> IsFrozen cs1"
    by auto
  from Cons.IH [OF q step(1) step(3) rest]
  have ih: "length css1 = length hs" "sorted (map GetLatestHeight (cs1 # css1))"
    "\<forall>cs \<in> set (cs1 # css1). \<not> IsFrozen cs"
    by blast+
  have "sorted (map GetLatestHeight (cs0 # cs1 # css1))"
    using step(2) ih(2) by (simp only: list.map sorted2)
  with ih(1,3) Cons.prems(3) show ?case
    by (simp add: css)
qed

theorem UpdateClients_heights_nondecreasing_witness:
  "update_contract (tendermint_CheckValidityAndUpdateState spec_keeper) \<and>
   GetClientState ctx_active ''chainA'' = Some chainA_active \<and>
   GetID chainA_active = ''chainA'' \<and> \<not> IsFrozen chainA_active \<and>
   map_option (map GetLatestHeight)
     (UpdateClients spec_keeper ctx_active ''chainA''
        [header_tm 7 ''r7'', header_tm 7 ''r7b'', header_tm 9 ''r9'']) = Some [7, 7, 9] \<and>
   (\<exists>css. UpdateClients spec_keeper ctx_active ''chainA''
             [header_tm 7 ''r7'', header_tm 7 ''r7b'', header_tm 9 ''r9''] = Some css \<and>
          length css = 3 \<and>
          sorted (map GetLatestHeight (chainA_active # css)) \<and>
          (\<forall>cs \<in> set (chainA_active # css). \<not> IsFrozen cs))"
proof -
  let ?hs = "[header_tm 7 ''r7'', header_tm 7 ''r7b'', header_tm 9 ''r9'']"
  have s: "GetClientState ctx_active ''chainA'' = Some chainA_active"
    by (simp add: store_defs ctx_active_def)
  have i: "GetID chainA_active = ''chainA''" and nf: "\<not> IsFrozen chainA_active"
    by (simp_all add: chainA_active_def)
  have hts: "map_option (map GetLatestHeight)
               (UpdateClients spec_keeper ctx_active ''chainA'' ?hs) = Some [7, 7, 9]"
    by (simp add: UpdateClient_def store_defs spec_keeper_def
        spec_CheckValidityAndUpdateState_def ctx_active_def chainA_active_def header_tm_def)
  then obtain css where
    run: "UpdateClients spec_keeper ctx_active ''chainA'' ?hs = Some css"
    by blast
  from UpdateClients_heights_nondecreasing [OF spec_keeper_update_contract s i nf run]
  have "length css = 3 \<and> sorted (map GetLatestHeight (chainA_active # css)) \<and>
        (\<forall>cs \<in> set (chainA_active # css). \<not> IsFrozen cs)"
    by simp
  with run spec_keeper_update_contract s i nf hts show ?thesis by blast
qed

section \<open>A type tag without a client state\<close>

lemma store_consistent_found:
  assumes "store_consistent ctx"
  shows "GetClientState ctx clientID = None \<longleftrightarrow> GetClientType ctx clientID = None"
  using assms unfolding store_consistent_def store_defs
  by (metis domIff)

lemma UpdateClient_consistent:
  assumes "store_consistent ctx"
    and "update_contract (tendermint_CheckValidityAndUpdateState k)"
    and "UpdateClient k ctx clientID header = (r, ctx')"
  shows "store_consistent ctx'"
proof (cases r)
  case (Ok u)
  with assms(3) have run: "UpdateClient k ctx clientID header = (Ok u, ctx')" by simp
  from UpdateClient_Ok [OF run] obtain cs cs' cons where
    s: "GetClientState ctx clientID = Some cs" and nf: "\<not> IsFrozen cs"
    and v: "tendermint_CheckValidityAndUpdateState k cs header (ChainID ctx) = Inr (cs', cons)"
    and ctx': "ctx' = EmitEvents
                 (SetClientConsensusState (SetClientState ctx cs') clientID
                    (Header_GetHeight header) cons)
                 [EventTypeUpdateClient clientID, EventTypeMessage]"
    by blast
  from assms(2) v nf have "GetID cs' = GetID cs"
    unfolding update_contract_def by blast
  moreover from assms(1) s have "GetID cs = clientID"
    unfolding store_consistent_def store_defs by blast
  ultimately have i: "GetID cs' = clientID" by simp
  from s have d: "clientID \<in> dom (clientStates ctx)"
    unfolding store_defs by auto
  have "clientStates ctx' = (clientStates ctx)(clientID \<mapsto> cs')"
    and "clientTypes ctx' = clientTypes ctx"
    by (simp_all add: ctx' store_defs i)
  with assms(1) d i show ?thesis
    unfolding store_consistent_def by (auto simp: insert_absorb)
next
  case (Err e)
  with assms(3) UpdateClient_Err [of k ctx clientID header e ctx'] assms(1) show ?thesis
    by simp
next
  case (Panic msg)
  with assms(3) UpdateClient_no_Panic [of k ctx clientID header msg ctx'] show ?thesis
    by simp
qed

lemma CheckMisbehaviour_consistent:
  assumes "store_consistent ctx"
    and "misbehaviour_contract (tendermint_CheckMisbehaviourAndUpdateState k)"
    and "CheckMisbehaviourAndUpdateState k ctx m = (r, ctx')"
  shows "store_consistent ctx'"
proof (cases r)
  case (Ok u)
  with assms(3) have run: "CheckMisbehaviourAndUpdateState k ctx m = (Ok u, ctx')" by simp
  from CheckMisbehaviour_Ok [OF run] obtain cs cons cs' where
    s: "GetClientState ctx (GetClientID m) = Some cs"
    and v: "tendermint_CheckMisbehaviourAndUpdateState k cs cons m
              (to_uint64 (Misbehaviour_GetHeight m)) = Inr cs'"
    and ctx': "ctx' = EmitEvents (SetClientState ctx cs')
                 [EventTypeSubmitMisbehaviour (GetClientID m) (Misbehaviour_ClientType m)]"
    by blast
  from assms(2) v have "GetID cs' = GetID cs"
    unfolding misbehaviour_contract_def by blast
  moreover from assms(1) s have "GetID cs = GetClientID m"
    unfolding store_consistent_def store_defs by blast
  ultimately have i: "GetID cs' = GetClientID m" by simp
  from s have d: "GetClientID m \<in> dom (clientStates ctx)"
    unfolding store_defs by auto
  have "clientStates ctx' = (clientStates ctx)(GetClientID m \<mapsto> cs')"
    and "clientTypes ctx' = clientTypes ctx"
    by (simp_all add: ctx' store_defs i)
  with assms(1) d i show ?thesis
    unfolding store_consistent_def by (auto simp: insert_absorb)
next
  case (Err e)
  with assms(3) CheckMisbehaviour_Err [of k ctx m e ctx'] assms(1) show ?thesis
    by simp
next
  case (Panic msg)
  with assms(3) CheckMisbehaviour_no_Panic [of k ctx m msg ctx'] show ?thesis
    by simp
qed

lemma CreateClient_consistent:
  assumes "store_consistent ctx"
    and "initialize_contract (initialize k)"
    and "CreateClient k ctx clientID clientType cons = (r, ctx')"
  shows "store_consistent ctx'"
proof (cases r)
  case (Ok cs)
  with assms(3) have run: "CreateClient k ctx clientID clientType cons = (Ok cs, ctx')"
    by simp
  from CreateClient_Ok [OF run] obtain ctx1 where
    init: "initialize k ctx clientID clientType cons = (Inr cs, ctx1)"
    and ctx': "ctx' = EmitEvents (SetClientType (SetClientState ctx1 cs) clientID clientType)
                 [EventTypeCreateClient clientID, EventTypeMessage]"
    by blast
  from assms(2) init have c: "clientStates ctx1 = clientStates ctx"
    "clientTypes ctx1 = clientTypes ctx" "GetID cs = clientID"
    unfolding initialize_contract_def by blast+
  have "clientStates ctx' = (clientStates ctx)(clientID \<mapsto> cs)"
    and "clientTypes ctx' = (clientTypes ctx)(clientID \<mapsto> clientType)"
    by (simp_all add: ctx' store_defs c)
  with assms(1) c(3) show ?thesis
    unfolding store_consistent_def by auto
next
  case (Err e)
  with assms(3) CreateClient_Err [of k ctx clientID clientType cons e ctx']
  have "ctx' = ctx \<or> (\<exists>err. initialize k ctx clientID clientType cons = (Inl err, ctx'))"
    by simp
  then show ?thesis
  proof
    assume "ctx' = ctx"
    with assms(1) show ?thesis by simp
  next
    assume "\<exists>err. initialize k ctx clientID clientType cons = (Inl err, ctx')"
    with assms(2) have "clientStates ctx' = clientStates ctx"
      and "clientTypes ctx' = clientTypes ctx"
      unfolding initialize_contract_def by blast+
    with assms(1) show ?thesis
      unfolding store_consistent_def by simp
  qed
next
  case (Panic msg)
  with assms(3) CreateClient_Panic [of k ctx clientID clientType cons msg ctx'] assms(1)
  show ?thesis by simp
qed

lemma ctx_examples_consistent:
  "store_consistent ctx_empty" "store_consistent ctx_active"
  by (auto simp: store_consistent_def ctx_empty_def ctx_active_def chainA_active_def
      split: if_splits)

text \<open>
  C5, as amended. When the store holds a type tag for an identifier and no ClientState,
  \<^verbatim>\<open>CreateClient\<close> panics, before any write. \<^verbatim>\<open>UpdateClient\<close> does not panic on a
  store in that state or in the converse one: it returns the ordinary error
  \<^verbatim>\<open>ErrClientTypeNotFound\<close> when no tag is stored, and \<^verbatim>\<open>ErrInvalidConsensus\<close> or
  \<^verbatim>\<open>ErrClientNotFound\<close> when a tag is stored and no ClientState, with the context
  unchanged. In a consistent store a tag is stored exactly where a ClientState is, and
  with an initialisation and strategies within their contracts the three operations
  take a consistent store to a consistent store, so neither state arises under
  correct operation.
\<close>

theorem store_corruption:
  "(GetClientState ctx clientID = None \<and> GetClientType ctx clientID = Some t \<longrightarrow>
      CreateClient k ctx clientID clientType cons =
        (Panic (''client type is already defined for client '' @ clientID), ctx))
   \<and> (GetClientType ctx clientID = None \<longrightarrow>
        UpdateClient k ctx clientID header =
          (Err (Wrapf ErrClientTypeNotFound (''cannot update client with ID '' @ clientID)),
           ctx))
   \<and> (GetClientState ctx clientID = None \<and> GetClientType ctx clientID = Some t \<longrightarrow>
        UpdateClient k ctx clientID header =
          (Err (Wrapf (if Header_ClientType header \<noteq> t then ErrInvalidConsensus
                       else ErrClientNotFound)
                  (''cannot update client with ID '' @ clientID)),
           ctx))
   \<and> (store_consistent ctx \<longrightarrow>
        (GetClientState ctx clientID = None \<longleftrightarrow> GetClientType ctx clientID = None))
   \<and> (store_consistent ctx \<and> initialize_contract (initialize k) \<and>
        CreateClient k ctx clientID clientType cons = (rc, ctx') \<longrightarrow> store_consistent ctx')
   \<and> (store_consistent ctx \<and>
        update_contract (tendermint_CheckValidityAndUpdateState k) \<and>
        UpdateClient k ctx clientID header = (ru, ctx') \<longrightarrow> store_consistent ctx')
   \<and> (store_consistent ctx \<and>
        misbehaviour_contract (tendermint_CheckMisbehaviourAndUpdateState k) \<and>
        CheckMisbehaviourAndUpdateState k ctx m = (ru, ctx') \<longrightarrow> store_consistent ctx')"
proof (intro conjI impI)
  assume "GetClientState ctx clientID = None \<and> GetClientType ctx clientID = Some t"
  then show "CreateClient k ctx clientID clientType cons =
        (Panic (''client type is already defined for client '' @ clientID), ctx)"
    by (simp add: CreateClient_def)
next
  assume "GetClientType ctx clientID = None"
  then show "UpdateClient k ctx clientID header =
          (Err (Wrapf ErrClientTypeNotFound (''cannot update client with ID '' @ clientID)),
           ctx)"
    by (simp add: UpdateClient_def)
next
  assume "GetClientState ctx clientID = None \<and> GetClientType ctx clientID = Some t"
  then show "UpdateClient k ctx clientID header =
          (Err (Wrapf (if Header_ClientType header \<noteq> t then ErrInvalidConsensus
                       else ErrClientNotFound)
                  (''cannot update client with ID '' @ clientID)),
           ctx)"
    by (simp add: UpdateClient_def)
next
  assume "store_consistent ctx"
  then show "GetClientState ctx clientID = None \<longleftrightarrow> GetClientType ctx clientID = None"
    by (rule store_consistent_found)
next
  assume "store_consistent ctx \<and> initialize_contract (initialize k) \<and>
        CreateClient k ctx clientID clientType cons = (rc, ctx')"
  then show "store_consistent ctx'"
    using CreateClient_consistent by blast
next
  assume "store_consistent ctx \<and>
        update_contract (tendermint_CheckValidityAndUpdateState k) \<and>
        UpdateClient k ctx clientID header = (ru, ctx')"
  then show "store_consistent ctx'"
    using UpdateClient_consistent by blast
next
  assume "store_consistent ctx \<and>
        misbehaviour_contract (tendermint_CheckMisbehaviourAndUpdateState k) \<and>
        CheckMisbehaviourAndUpdateState k ctx m = (ru, ctx')"
  then show "store_consistent ctx'"
    using CheckMisbehaviour_consistent by blast
qed

theorem store_corruption_witness:
  "GetClientState ctx_tag_only ''chainA'' = None \<and>
   GetClientType ctx_tag_only ''chainA'' = Some Tendermint \<and>
   CreateClient spec_keeper ctx_tag_only ''chainA'' Tendermint snapshot5 =
     (Panic ''client type is already defined for client chainA'', ctx_tag_only) \<and>
   UpdateClient spec_keeper ctx_tag_only ''chainA'' (header_tm 6 ''x'') =
     (Err (Wrapf ErrClientNotFound ''cannot update client with ID chainA''), ctx_tag_only) \<and>
   GetClientType ctx_empty ''chainA'' = None \<and>
   UpdateClient spec_keeper ctx_empty ''chainA'' (header_tm 6 ''x'') =
     (Err (Wrapf ErrClientTypeNotFound ''cannot update client with ID chainA''), ctx_empty) \<and>
   store_consistent ctx_active \<and>
   GetClientState ctx_active ''chainA'' \<noteq> None \<and>
   GetClientType ctx_active ''chainA'' \<noteq> None \<and>
   initialize_contract (initialize spec_keeper) \<and>
   update_contract (tendermint_CheckValidityAndUpdateState spec_keeper) \<and>
   misbehaviour_contract (tendermint_CheckMisbehaviourAndUpdateState spec_keeper) \<and>
   fst (UpdateClient spec_keeper ctx_active ''chainA'' (header_tm 7 ''r7'')) = Ok () \<and>
   store_consistent (snd (UpdateClient spec_keeper ctx_active ''chainA'' (header_tm 7 ''r7''))) \<and>
   fst (CheckMisbehaviourAndUpdateState spec_keeper ctx_active
          (evidence TendermintEvidence ''chainA'' ''b'')) = Ok () \<and>
   store_consistent
     (snd (CheckMisbehaviourAndUpdateState spec_keeper ctx_active
             (evidence TendermintEvidence ''chainA'' ''b''))) \<and>
   store_consistent ctx_empty \<and>
   fst (CreateClient spec_keeper ctx_empty ''chainA'' Tendermint snapshot5) = Ok chainA_active \<and>
   store_consistent (snd (CreateClient spec_keeper ctx_empty ''chainA'' Tendermint snapshot5))"
proof -
  let ?h6 = "header_tm 6 ''x''"
  let ?u = "UpdateClient spec_keeper ctx_active ''chainA'' (header_tm 7 ''r7'')"
  let ?m = "CheckMisbehaviourAndUpdateState spec_keeper ctx_active
              (evidence TendermintEvidence ''chainA'' ''b'')"
  let ?c = "CreateClient spec_keeper ctx_empty ''chainA'' Tendermint snapshot5"
  have tag_only: "GetClientState ctx_tag_only ''chainA'' = None"
    "GetClientType ctx_tag_only ''chainA'' = Some Tendermint"
    by (simp_all add: store_defs ctx_tag_only_def)
  have no_tag: "GetClientType ctx_empty ''chainA'' = None"
    by (simp add: store_defs ctx_empty_def)
  have found: "GetClientState ctx_active ''chainA'' \<noteq> None"
    by (simp add: store_defs ctx_active_def)
  have fu: "fst ?u = Ok ()"
    by (simp add: UpdateClient_def store_defs spec_keeper_def
        spec_CheckValidityAndUpdateState_def ctx_active_def chainA_active_def header_tm_def)
  have fm: "fst ?m = Ok ()"
    by (simp add: CheckMisbehaviourAndUpdateState_def store_defs spec_keeper_def
        spec_CheckMisbehaviourAndUpdateState_def ctx_active_def evidence_def to_uint64_def
        header_tm_def)
  have fc: "fst ?c = Ok chainA_active"
    by (simp add: CreateClient_def store_defs spec_keeper_def spec_initialize_def
        ctx_empty_def snapshot5_def chainA_active_def)
  have u: "?u = (Ok (), snd ?u)" using fu by (simp add: prod_eq_iff)
  have m: "?m = (Ok (), snd ?m)" using fm by (simp add: prod_eq_iff)
  have c: "?c = (Ok chainA_active, snd ?c)" using fc by (simp add: prod_eq_iff)
  let ?ev = "evidence TendermintEvidence ''chainA'' ''b''"
  note corrupted =
    store_corruption [where k = spec_keeper and ctx = ctx_tag_only
      and clientID = "''chainA''" and t = Tendermint and clientType = Tendermint
      and cons = snapshot5 and header = ?h6 and rc = "Ok chainA_active"
      and ru = "Ok ()" and ctx' = ctx_tag_only and m = ?ev]
  note untagged =
    store_corruption [where k = spec_keeper and ctx = ctx_empty
      and clientID = "''chainA''" and t = Tendermint and clientType = Tendermint
      and cons = snapshot5 and header = ?h6 and rc = "Ok chainA_active"
      and ru = "Ok ()" and ctx' = ctx_empty and m = ?ev]
  note updated =
    store_corruption [where k = spec_keeper and ctx = ctx_active
      and clientID = "''chainA''" and t = Tendermint and clientType = Tendermint
      and cons = snapshot5 and header = "header_tm 7 ''r7''" and rc = "Ok chainA_active"
      and ru = "Ok ()" and ctx' = "snd ?u" and m = ?ev]
  note frozen =
    store_corruption [where k = spec_keeper and ctx = ctx_active
      and clientID = "''chainA''" and t = Tendermint and clientType = Tendermint
      and cons = snapshot5 and header = ?h6 and rc = "Ok chainA_active"
      and ru = "Ok ()" and ctx' = "snd ?m" and m = ?ev]
  note created =
    store_corruption [where k = spec_keeper and ctx = ctx_empty
      and clientID = "''chainA''" and t = Tendermint and clientType = Tendermint
      and cons = snapshot5 and header = ?h6 and rc = "Ok chainA_active"
      and ru = "Ok ()" and ctx' = "snd ?c" and m = ?ev]
  have 1: "CreateClient spec_keeper ctx_tag_only ''chainA'' Tendermint snapshot5 =
     (Panic ''client type is already defined for client chainA'', ctx_tag_only)"
    using corrupted tag_only by simp
  have 2: "UpdateClient spec_keeper ctx_tag_only ''chainA'' ?h6 =
     (Err (Wrapf ErrClientNotFound ''cannot update client with ID chainA''), ctx_tag_only)"
    using corrupted tag_only by (simp add: header_tm_def)
  have 3: "UpdateClient spec_keeper ctx_empty ''chainA'' ?h6 =
     (Err (Wrapf ErrClientTypeNotFound ''cannot update client with ID chainA''), ctx_empty)"
    using untagged no_tag by simp
  have 4: "GetClientType ctx_active ''chainA'' \<noteq> None"
    using updated ctx_examples_consistent(2) found by blast
  have 5: "store_consistent (snd ?u)"
    using updated ctx_examples_consistent(2) spec_keeper_update_contract u by blast
  have 6: "store_consistent (snd ?m)"
    using frozen ctx_examples_consistent(2) spec_keeper_misbehaviour_contract m by blast
  have 7: "store_consistent (snd ?c)"
    using created ctx_examples_consistent(1) spec_keeper_initialize_contract c by blast
  from tag_only no_tag found fu fm fc 1 2 3 4 5 6 7 ctx_examples_consistent
    spec_keeper_update_contract spec_keeper_misbehaviour_contract
    spec_keeper_initialize_contract
  show ?thesis by blast
qed

text \<open>
  The claim as stated fails: on a store with a type tag and no ClientState,
  \<^verbatim>\<open>UpdateClient\<close> returns the ordinary error \<^verbatim>\<open>ErrClientNotFound\<close> and does not panic.
\<close>

theorem store_corruption_counterexample:
  "GetClientType ctx_tag_only ''chainA'' = Some Tendermint \<and>
   GetClientState ctx_tag_only ''chainA'' = None \<and>
   UpdateClient spec_keeper ctx_tag_only ''chainA'' (header_tm 6 ''x'') =
     (Err (Wrapf ErrClientNotFound ''cannot update client with ID chainA''), ctx_tag_only)"
  by (simp add: UpdateClient_def store_defs ctx_tag_only_def header_tm_def)

end
